theory Spec2Isabelle
  imports Complex_Main "HOL-Library.Monad_Syntax" "HOL-Library.Multiset"
begin

section \<open>Tensors\<close>

text \<open>
  The forward pass of \<^verbatim>\<open>tabnet.py\<close> works on rank-2 float tensors of shape
  \<open>[batch, width]\<close>.  A tensor is modelled as its declared width together with the list
  of its rows; the batch size is the number of rows.  Floats are idealised as reals:
  rounding, overflow and the values NaN and Inf are outside the model.

  A shape error of an elementwise operation (TensorFlow raises \<open>InvalidArgumentError\<close>)
  is the value \<open>None\<close>; every operation that can raise returns an option.
\<close>

datatype tensor = Tensor (ncols: nat) (rows: "real list list")

definition nrows :: "tensor \<Rightarrow> nat" where
  "nrows t = length (rows t)"

text \<open>A tensor is well shaped when every row has the declared width.\<close>

definition well_shaped :: "tensor \<Rightarrow> bool" where
  "well_shaped t = list_all (\<lambda>r. length r = ncols t) (rows t)"

definition entries :: "tensor \<Rightarrow> real set" where
  "entries t = \<Union> (set ` set (rows t))"

text \<open>\<^verbatim>\<open>tf.zeros([b, n])\<close> and \<^verbatim>\<open>tf.ones([b, n])\<close>.\<close>

definition tf_zeros :: "nat \<Rightarrow> nat \<Rightarrow> tensor" where
  "tf_zeros b n = Tensor n (replicate b (replicate n 0))"

definition tf_ones :: "nat \<Rightarrow> nat \<Rightarrow> tensor" where
  "tf_ones b n = Tensor n (replicate b (replicate n 1))"

text \<open>A unary elementwise operation, or an operation with a scalar operand.\<close>

definition tmap :: "(real \<Rightarrow> real) \<Rightarrow> tensor \<Rightarrow> tensor" where
  "tmap f t = Tensor (ncols t) (map (map f) (rows t))"

text \<open>
  Broadcasting of one dimension, as NumPy and TensorFlow do it: equal sizes are kept, a
  size of 1 is stretched to the other size, anything else is a shape error.
\<close>

definition bdim :: "nat \<Rightarrow> nat \<Rightarrow> nat option" where
  "bdim a b = (if a = b then Some a else if a = 1 then Some b
               else if b = 1 then Some a else None)"

text \<open>Stretching a list of length 1 to length \<open>n\<close>; a list of length \<open>n\<close> is left alone.\<close>

definition stretch :: "nat \<Rightarrow> 'a list \<Rightarrow> 'a list" where
  "stretch n xs = (if length xs = n then xs else concat (replicate n xs))"

text \<open>A binary elementwise operation on two rank-2 tensors, with broadcasting.\<close>

definition bop :: "(real \<Rightarrow> real \<Rightarrow> real) \<Rightarrow> tensor \<Rightarrow> tensor \<Rightarrow> tensor option" where
  "bop f x y =
     (case (bdim (nrows x) (nrows y), bdim (ncols x) (ncols y)) of
        (Some b, Some n) \<Rightarrow>
          Some (Tensor n
            (map2 (\<lambda>r q. map2 f (stretch n r) (stretch n q))
               (stretch b (rows x)) (stretch b (rows y))))
      | _ \<Rightarrow> None)"

text \<open>
  The slices \<^verbatim>\<open>t[:, :k]\<close> and \<^verbatim>\<open>t[:, k:]\<close>.  A slice bound beyond the width is
  clamped, as Python and TensorFlow slicing do; slicing never raises.
\<close>

definition slice_to :: "nat \<Rightarrow> tensor \<Rightarrow> tensor" where
  "slice_to k t = Tensor (min k (ncols t)) (map (take k) (rows t))"

definition slice_from :: "nat \<Rightarrow> tensor \<Rightarrow> tensor" where
  "slice_from k t = Tensor (ncols t - k) (map (drop k) (rows t))"

text \<open>\<^verbatim>\<open>tf.reduce_sum(t, axis=1, keepdims=True)\<close>: shape \<open>[batch, 1]\<close>.\<close>

definition reduce_sum_keepdims :: "tensor \<Rightarrow> tensor" where
  "reduce_sum_keepdims t = Tensor 1 (map (\<lambda>r. [sum_list r]) (rows t))"

text \<open>\<^verbatim>\<open>tf.reduce_sum(t, axis=1)\<close>: one value per sample.\<close>

definition reduce_sum_axis1 :: "tensor \<Rightarrow> real list" where
  "reduce_sum_axis1 t = map sum_list (rows t)"

text \<open>
  \<^verbatim>\<open>tf.reduce_mean\<close> of a rank-1 tensor.  On an empty batch TensorFlow yields NaN;
  the model's value there (0, as HOL divides by zero) has no meaning, and statements
  about the value of the mean assume a non-empty batch.
\<close>

definition reduce_mean :: "real list \<Rightarrow> real" where
  "reduce_mean xs = sum_list xs / real (length xs)"

definition relu :: "real \<Rightarrow> real" where
  "relu x = max x 0"

definition sigmoid :: "real \<Rightarrow> real" where
  "sigmoid x = 1 / (1 + exp (- x))"

section \<open>The helpers of \<^verbatim>\<open>custom_objects\<close>\<close>

text \<open>
  \<^verbatim>\<open>tabnet.py\<close> imports \<open>glu\<close> and \<open>sparsemax\<close> from the module
  \<^verbatim>\<open>custom_objects\<close>, which is not among the sources.  Both are modelled from
  the specification's description of them.
\<close>

text \<open>
  Modelled from the spec: \<open>glu\<close> of \<^verbatim>\<open>custom_objects\<close> is missing.  The
  specification: split the vector into two halves \<open>a\<close>, \<open>b\<close> of width \<open>n\<close> each; the
  output is \<open>a\<close> times \<open>sigmoid b\<close>, elementwise.
\<close>

definition glu :: "tensor \<Rightarrow> nat \<Rightarrow> tensor option" where
  "glu x n_units = bop (*) (slice_to n_units x) (tmap sigmoid (slice_from n_units x))"

text \<open>
  Modelled from the spec: \<open>sparsemax\<close> of \<^verbatim>\<open>custom_objects\<close> is missing.  The
  specification: for each row, sort the entries descending, find the largest \<open>k\<close> such
  that the \<open>k\<close>-th sorted value exceeds \<open>(cumsum_k - 1) / k\<close>, take the threshold
  \<open>\<tau> = (cumsum_k - 1) / k\<close>, and output \<open>max (score - \<tau>) 0\<close> per entry.
\<close>

definition support_sizes :: "real list \<Rightarrow> nat list" where
  "support_sizes s =
     filter (\<lambda>k. (sum_list (take k s) - 1) / real k < s ! (k - 1)) [1..<Suc (length s)]"

definition threshold :: "real list \<Rightarrow> real" where
  "threshold z =
     (let s = rev (sort z);
          k = last (0 # support_sizes s)
      in (sum_list (take k s) - 1) / real k)"

definition sparsemax_row :: "real list \<Rightarrow> real list" where
  "sparsemax_row z = map (\<lambda>x. max (x - threshold z) 0) z"

text \<open>\<^verbatim>\<open>sparsemax(t, axis=-1)\<close>: row by row.\<close>

definition sparsemax :: "tensor \<Rightarrow> tensor" where
  "sparsemax t = Tensor (ncols t) (map sparsemax_row (rows t))"

section \<open>The network\<close>

text \<open>
  \<^verbatim>\<open>class TransformBlock\<close>: a \<open>Dense\<close> layer without bias followed by a
  \<open>BatchNormalization\<close> layer.  Both are operators of the framework; they are taken as
  functions on tensors.  The batch normalisation also receives the \<open>training\<close> argument
  (\<open>None\<close>, \<open>True\<close> or \<open>False\<close> in the source).
\<close>

record TransformBlock =
  transform :: "tensor \<Rightarrow> tensor"
  bn :: "bool option \<Rightarrow> tensor \<Rightarrow> tensor"

text \<open>\<^verbatim>\<open>TransformBlock.call\<close>.\<close>

definition TransformBlock_call :: "TransformBlock \<Rightarrow> tensor \<Rightarrow> bool option \<Rightarrow> tensor" where
  "TransformBlock_call blk inputs training =
     (let x = transform blk inputs;
          x = bn blk training x
      in x)"

text \<open>
  \<^verbatim>\<open>class TabNet\<close>: the attributes set by \<open>__init__\<close> that \<open>call\<close> reads.  The raw
  input (a mapping from column names to values) has the type \<open>'i\<close>; \<open>input_features\<close> is
  the \<open>DenseFeatures\<close> encoder and \<open>input_bn\<close> the input normalisation.
\<close>

record 'i TabNet =
  num_features :: nat
  feature_dim :: nat
  output_dim :: nat
  num_decision_steps :: int
  relaxation_factor :: real
  epsilon :: real
  input_features :: "'i \<Rightarrow> tensor"
  input_bn :: "bool option \<Rightarrow> tensor \<Rightarrow> tensor"
  transform_f1 :: TransformBlock
  transform_f2 :: TransformBlock
  transform_f3 :: TransformBlock
  transform_f4 :: TransformBlock
  transform_coef :: TransformBlock

text \<open>The variables that \<open>TabNet.call\<close> carries from one decision step to the next.\<close>

record loop_state =
  output_aggregated :: tensor
  masked_features :: tensor
  mask_values :: tensor
  aggregated_mask_values :: tensor
  complemantary_aggregated_mask_values :: tensor
  total_entropy :: real

text \<open>
  Lines 119 to 132 of \<open>TabNet.call\<close>: the four transform blocks with their gated
  activations and residual connections.
\<close>

definition feature_transform ::
  "('i, 'z) TabNet_scheme \<Rightarrow> bool option \<Rightarrow> tensor \<Rightarrow> tensor option" where
  "feature_transform self training masked = do {
     let t1 = TransformBlock_call (transform_f1 self) masked training;
     t1 \<leftarrow> glu t1 (feature_dim self);
     let t2 = TransformBlock_call (transform_f2 self) t1 training;
     g2 \<leftarrow> glu t2 (feature_dim self);
     s2 \<leftarrow> bop (+) g2 t1;
     let t2 = tmap (\<lambda>v. v * sqrt 0.5) s2;
     let t3 = TransformBlock_call (transform_f3 self) t2 training;
     g3 \<leftarrow> glu t3 (feature_dim self);
     s3 \<leftarrow> bop (+) g3 t2;
     let t3 = tmap (\<lambda>v. v * sqrt 0.5) s3;
     let t4 = TransformBlock_call (transform_f4 self) t3 training;
     g4 \<leftarrow> glu t4 (feature_dim self);
     s4 \<leftarrow> bop (+) g4 t3;
     Some (tmap (\<lambda>v. v * sqrt 0.5) s4)
   }"

text \<open>Lines 134 to 145: the decision aggregation, run when \<open>ni > 0\<close>.\<close>

definition aggregate ::
  "('i, 'z) TabNet_scheme \<Rightarrow> tensor \<Rightarrow> loop_state \<Rightarrow> loop_state option" where
  "aggregate self t4 s = do {
     let decision_out = tmap relu (slice_to (output_dim self) t4);
     out \<leftarrow> bop (+) (output_aggregated s) decision_out;
     let scale_agg = reduce_sum_keepdims decision_out;
     let scale_agg = tmap (\<lambda>v. v / of_int (num_decision_steps self - 1)) scale_agg;
     scaled \<leftarrow> bop (*) (mask_values s) scale_agg;
     agg \<leftarrow> bop (+) (aggregated_mask_values s) scaled;
     Some (s\<lparr>output_aggregated := out, aggregated_mask_values := agg\<rparr>)
   }"

text \<open>
  Lines 149 to 170: the attentive mask, the budget update, the entropy term and the
  feature selection, run when \<open>ni < num_decision_steps - 1\<close>.
\<close>

definition entropy_term :: "('i, 'z) TabNet_scheme \<Rightarrow> tensor \<Rightarrow> real option" where
  "entropy_term self msk = do {
     pr \<leftarrow> bop (*) (tmap uminus msk) (tmap (\<lambda>v. ln (v + epsilon self)) msk);
     Some (reduce_mean (reduce_sum_axis1 pr) / of_int (num_decision_steps self - 1))
   }"

definition attend ::
  "('i, 'z) TabNet_scheme \<Rightarrow> bool option \<Rightarrow> tensor \<Rightarrow> tensor \<Rightarrow> loop_state \<Rightarrow>
   loop_state option" where
  "attend self training features features_for_coef s = do {
     let msk = TransformBlock_call (transform_coef self) features_for_coef training;
     msk \<leftarrow> bop (*) msk (complemantary_aggregated_mask_values s);
     let msk = sparsemax msk;
     budget \<leftarrow> bop (*) (complemantary_aggregated_mask_values s)
                 (tmap (\<lambda>v. relaxation_factor self - v) msk);
     e \<leftarrow> entropy_term self msk;
     masked \<leftarrow> bop (*) msk features;
     Some (s\<lparr>mask_values := msk,
             complemantary_aggregated_mask_values := budget,
             total_entropy := total_entropy s + e,
             masked_features := masked\<rparr>)
   }"

text \<open>The part of the loop body after the transform chain (lines 134 to 170).\<close>

definition after_transform ::
  "('i, 'z) TabNet_scheme \<Rightarrow> bool option \<Rightarrow> tensor \<Rightarrow> nat \<Rightarrow> loop_state \<Rightarrow> tensor \<Rightarrow>
   loop_state option" where
  "after_transform self training features ni s t4 = do {
     s \<leftarrow> (if ni > 0 then aggregate self t4 s else Some s);
     let features_for_coef = slice_from (output_dim self) t4;
     (if int ni < num_decision_steps self - 1
      then attend self training features features_for_coef s
      else Some s)
   }"

text \<open>One iteration of the loop of \<open>TabNet.call\<close> (lines 116 to 170).\<close>

definition decision_step ::
  "('i, 'z) TabNet_scheme \<Rightarrow> bool option \<Rightarrow> tensor \<Rightarrow> nat \<Rightarrow> loop_state \<Rightarrow>
   loop_state option" where
  "decision_step self training features ni s = do {
     t4 \<leftarrow> feature_transform self training (masked_features s);
     after_transform self training features ni s t4
   }"

text \<open>The loop over a list of step indices; it stops at the first error.\<close>

fun steps ::
  "('i, 'z) TabNet_scheme \<Rightarrow> bool option \<Rightarrow> tensor \<Rightarrow> nat list \<Rightarrow> loop_state \<Rightarrow>
   loop_state option" where
  "steps self training features [] s = Some s"
| "steps self training features (ni # nis) s =
     (case decision_step self training features ni s of
        None \<Rightarrow> None
      | Some s' \<Rightarrow> steps self training features nis s')"

text \<open>Lines 101 and 102: the encoded and normalised input features.\<close>

definition normalized_features :: "('i, 'z) TabNet_scheme \<Rightarrow> 'i \<Rightarrow> bool option \<Rightarrow> tensor" where
  "normalized_features self inputs training =
     input_bn self training (input_features self inputs)"

text \<open>Lines 104 to 114: the variables before the first decision step.\<close>

definition initial_state :: "('i, 'z) TabNet_scheme \<Rightarrow> tensor \<Rightarrow> loop_state" where
  "initial_state self features =
     (let batch_size = nrows features in
      \<lparr>output_aggregated = tf_zeros batch_size (output_dim self),
       masked_features = features,
       mask_values = tf_zeros batch_size (num_features self),
       aggregated_mask_values = tf_zeros batch_size (num_features self),
       complemantary_aggregated_mask_values = tf_ones batch_size (num_features self),
       total_entropy = 0\<rparr>)"

text \<open>
  The state after the first \<open>k\<close> iterations of the loop (the steps \<open>0\<close> to \<open>k - 1\<close>).
\<close>

definition state_after ::
  "('i, 'z) TabNet_scheme \<Rightarrow> 'i \<Rightarrow> bool option \<Rightarrow> nat \<Rightarrow> loop_state option" where
  "state_after self inputs training k =
     (let features = normalized_features self inputs training
      in steps self training features [0..<k] (initial_state self features))"

text \<open>
  \<open>TabNet.call\<close>: \<^verbatim>\<open>tf.range(num_decision_steps)\<close> is empty for a count below 1.
\<close>

definition TabNet_call ::
  "('i, 'z) TabNet_scheme \<Rightarrow> 'i \<Rightarrow> bool option \<Rightarrow> (tensor \<times> real) option" where
  "TabNet_call self inputs training =
     (case state_after self inputs training (nat (num_decision_steps self)) of
        None \<Rightarrow> None
      | Some s \<Rightarrow> Some (output_aggregated s, total_entropy s))"

section \<open>The heads\<close>

text \<open>
  \<^verbatim>\<open>class TabNetClassification\<close> and \<^verbatim>\<open>class TabNetRegression\<close>.  The attributes
  \<open>activations\<close> and \<open>total_entropy\<close> do not exist before the first call, which is the
  value \<open>None\<close>.  The output layers \<open>clf\<close> (a \<open>Dense\<close> layer with softmax) and
  \<open>regressor\<close> (a \<open>Dense\<close> layer) are operators of the framework.  The field names carry
  a suffix, since both classes use the same attribute names.
\<close>

record 'i TabNetClassification =
  tabnet_c :: "'i TabNet"
  clf :: "tensor \<Rightarrow> tensor"
  activations_c :: "tensor option"
  total_entropy_c :: "real option"

record 'i TabNetRegression =
  tabnet_r :: "'i TabNet"
  regressor :: "tensor \<Rightarrow> tensor"
  activations_r :: "tensor option"
  total_entropy_r :: "real option"

text \<open>
  \<open>TabNetClassification.call\<close>: the result is the returned tensor together with the
  object after the call.  When the core raises, nothing is returned and nothing is
  assigned.
\<close>

definition TabNetClassification_call ::
  "'i TabNetClassification \<Rightarrow> 'i \<Rightarrow> bool option \<Rightarrow> (tensor \<times> 'i TabNetClassification) option" where
  "TabNetClassification_call self inputs training =
     (case TabNet_call (tabnet_c self) inputs training of
        None \<Rightarrow> None
      | Some (a, e) \<Rightarrow>
          (let self = self\<lparr>activations_c := Some a, total_entropy_c := Some e\<rparr>;
               out = clf self (the (activations_c self))
           in Some (out, self)))"

text \<open>\<open>TabNetRegression.call\<close>.\<close>

definition TabNetRegression_call ::
  "'i TabNetRegression \<Rightarrow> 'i \<Rightarrow> bool option \<Rightarrow> (tensor \<times> 'i TabNetRegression) option" where
  "TabNetRegression_call self inputs training =
     (case TabNet_call (tabnet_r self) inputs training of
        None \<Rightarrow> None
      | Some (a, e) \<Rightarrow>
          (let self = self\<lparr>activations_r := Some a, total_entropy_r := Some e\<rparr>;
               out = regressor self (the (activations_r self))
           in Some (out, self)))"

section \<open>Shape contracts of the framework's operators\<close>

text \<open>
  A \<open>Dense\<close> layer with \<open>units\<close> outputs followed by a batch normalisation maps a batch
  of any width to a batch of the same size and of width \<open>units\<close>.
\<close>

definition block_ok :: "TransformBlock \<Rightarrow> nat \<Rightarrow> bool" where
  "block_ok blk units =
     (\<forall>x training. well_shaped (TransformBlock_call blk x training)
        \<and> nrows (TransformBlock_call blk x training) = nrows x
        \<and> ncols (TransformBlock_call blk x training) = units)"

text \<open>
  Lines 94 to 97 of \<open>TabNet.__init__\<close> construct the four blocks of the transform chain
  with \<open>2 * feature_dim\<close> units, line 98 the block of the mask generator with
  \<open>num_features\<close> units.
\<close>

definition chain_ok :: "('i, 'z) TabNet_scheme \<Rightarrow> bool" where
  "chain_ok self =
     (block_ok (transform_f1 self) (2 * feature_dim self)
      \<and> block_ok (transform_f2 self) (2 * feature_dim self)
      \<and> block_ok (transform_f3 self) (2 * feature_dim self)
      \<and> block_ok (transform_f4 self) (2 * feature_dim self))"

definition coef_ok :: "('i, 'z) TabNet_scheme \<Rightarrow> bool" where
  "coef_ok self = block_ok (transform_coef self) (num_features self)"

section \<open>The specification's formulas\<close>

text \<open>
  The residual composition as the specification words it:
  \<open>out1 = GLU(B1(x))\<close>, \<open>out2 = (GLU(B2(out1)) + out1) * sqrt(0.5)\<close>,
  \<open>out3 = (GLU(B3(out2)) + out2) * sqrt(0.5)\<close>,
  \<open>out4 = (GLU(B4(out3)) + out3) * sqrt(0.5)\<close>.
\<close>

definition scaled_residual :: "tensor \<Rightarrow> tensor \<Rightarrow> tensor option" where
  "scaled_residual g prev = map_option (tmap (\<lambda>v. v * sqrt 0.5)) (bop (+) g prev)"

definition spec_chain ::
  "(tensor \<Rightarrow> tensor) \<Rightarrow> (tensor \<Rightarrow> tensor) \<Rightarrow> (tensor \<Rightarrow> tensor) \<Rightarrow> (tensor \<Rightarrow> tensor) \<Rightarrow>
   nat \<Rightarrow> tensor \<Rightarrow> tensor option" where
  "spec_chain B1 B2 B3 B4 fd x = do {
     out1 \<leftarrow> glu (B1 x) fd;
     g2 \<leftarrow> glu (B2 out1) fd;
     out2 \<leftarrow> scaled_residual g2 out1;
     g3 \<leftarrow> glu (B3 out2) fd;
     out3 \<leftarrow> scaled_residual g3 out2;
     g4 \<leftarrow> glu (B4 out3) fd;
     scaled_residual g4 out3
   }"

text \<open>
  The entropy contribution of one step as the specification words it: the mean over the
  batch of the sum over the features of \<open>- mask * log (mask + epsilon)\<close>, divided by
  \<open>numDecisionSteps - 1\<close>.
\<close>

definition sample_entropy :: "real \<Rightarrow> real list \<Rightarrow> real" where
  "sample_entropy eps r = sum_list (map (\<lambda>m. - m * ln (m + eps)) r)"

definition spec_entropy_increment :: "real \<Rightarrow> int \<Rightarrow> tensor \<Rightarrow> real" where
  "spec_entropy_increment eps n msk =
     (sum_list (map (sample_entropy eps) (rows msk)) / real (length (rows msk)))
       / of_int (n - 1)"

section \<open>A small network\<close>

text \<open>
  A transform block whose output rows are all the given row, a network of two features
  built from such blocks, and a batch of two samples.  The network is used to run the
  model on concrete data.
\<close>

definition const_block :: "real list \<Rightarrow> TransformBlock" where
  "const_block row =
     \<lparr>transform = (\<lambda>x. Tensor (length row) (map (\<lambda>_. row) (rows x))),
      bn = (\<lambda>training x. x)\<rparr>"

definition example_net :: "int \<Rightarrow> nat \<Rightarrow> nat \<Rightarrow> tensor TabNet" where
  "example_net n fd od =
     \<lparr>num_features = 2, feature_dim = fd, output_dim = od, num_decision_steps = n,
      relaxation_factor = 3 / 2, epsilon = 1 / 100000,
      input_features = (\<lambda>x. x), input_bn = (\<lambda>training x. x),
      transform_f1 = const_block (replicate (2 * fd) 0),
      transform_f2 = const_block (replicate (2 * fd) 0),
      transform_f3 = const_block (replicate (2 * fd) 0),
      transform_f4 = const_block (replicate (2 * fd) 0),
      transform_coef = const_block [2, 0]\<rparr>"

definition example_input :: tensor where
  "example_input = Tensor 2 [[1, 1], [3, - 1]]"

section \<open>The sparsemax rows lie on the simplex\<close>

lemma sum_list_map_sorted_desc:
  "sum_list (map f (rev (sort z))) = sum_list (map (f :: real \<Rightarrow> real) z)"
proof -
  have "mset (map f (rev (sort z))) = mset (map f z)" by simp
  then show ?thesis by (metis sum_mset_sum_list)
qed

lemma support_sizes_sorted: "sorted (support_sizes s)"
  unfolding support_sizes_def by (rule sorted_wrt_filter) (rule sorted_upt)

lemma one_in_support: "s \<noteq> [] \<Longrightarrow> 1 \<in> set (support_sizes s)"
  by (cases s) (simp_all add: support_sizes_def del: upt_Suc)

lemma support_member:
  "k \<in> set (support_sizes s) \<longleftrightarrow>
     1 \<le> k \<and> k \<le> length s \<and> (sum_list (take k s) - 1) / real k < s ! (k - 1)"
  by (auto simp: support_sizes_def simp del: upt_Suc)

lemma last_support:
  assumes "s \<noteq> []"
  defines "K \<equiv> last (0 # support_sizes s)"
  shows "K \<in> set (support_sizes s)" and "\<forall>k \<in> set (support_sizes s). k \<le> K"
proof -
  have ne: "support_sizes s \<noteq> []" using one_in_support[OF assms(1)] by auto
  then have K: "K = last (support_sizes s)" by (simp add: K_def)
  show "K \<in> set (support_sizes s)" using ne K by simp
  show "\<forall>k \<in> set (support_sizes s). k \<le> K"
  proof
    fix k assume "k \<in> set (support_sizes s)"
    then obtain i where i: "i < length (support_sizes s)" "support_sizes s ! i = k"
      by (auto simp: in_set_conv_nth)
    have "support_sizes s ! i \<le> support_sizes s ! (length (support_sizes s) - 1)"
      using support_sizes_sorted[of s] i(1) by (intro sorted_nth_mono) auto
    then show "k \<le> K" using i K ne by (simp add: last_conv_nth)
  qed
qed

lemma desc_nth:
  assumes "sorted (rev s)" "i \<le> j" "j < length s"
  shows "s ! j \<le> (s ! i :: real)"
proof (cases "i = j")
  case False
  have "sorted_wrt (\<lambda>x y. y \<le> x) s"
    using assms(1) by (simp add: sorted_wrt_rev)
  then show ?thesis
    using sorted_wrt_nth_less[of "\<lambda>x y. y \<le> x" s i j] assms False by simp
qed simp

lemma sum_list_shift:
  "\<forall>x \<in> set xs. t < x \<Longrightarrow>
   sum_list (map (\<lambda>x. max (x - t) 0) xs) = sum_list xs - real (length xs) * (t :: real)"
  by (induction xs) (auto simp: algebra_simps max_def)

lemma sum_list_clip:
  "\<forall>x \<in> set xs. x \<le> t \<Longrightarrow> sum_list (map (\<lambda>x. max (x - t) 0) xs) = (0 :: real)"
  by (induction xs) (auto simp: max_def)

lemma simplex_sorted:
  assumes desc: "sorted (rev s)" and ne: "s \<noteq> []"
  defines "K \<equiv> last (0 # support_sizes s)"
  defines "t \<equiv> (sum_list (take K s) - 1) / real K"
  shows "sum_list (map (\<lambda>x. max (x - t) 0) s) = 1"
proof -
  have Kin: "K \<in> set (support_sizes s)" and Kmax: "\<forall>k \<in> set (support_sizes s). k \<le> K"
    using last_support[OF ne] by (simp_all add: K_def)
  from Kin have K1: "1 \<le> K" and Kn: "K \<le> length s" and PK: "t < s ! (K - 1)"
    by (simp_all add: support_member t_def)
  have upper: "t < x" if "x \<in> set (take K s)" for x
  proof -
    from that obtain i where i: "i < K" "x = s ! i"
      using Kn by (auto simp: in_set_conv_nth)
    have "s ! (K - 1) \<le> s ! i" using desc_nth[OF desc, of i "K - 1"] i K1 Kn by simp
    then show ?thesis using PK i by simp
  qed
  have lower: "x \<le> t" if "x \<in> set (drop K s)" for x
  proof -
    from that obtain i where i: "i < length s - K" "x = s ! (K + i)"
      by (auto simp: in_set_conv_nth)
    then have Klt: "K < length s" by simp
    have "Suc K \<notin> set (support_sizes s)" using Kmax by auto
    then have "s ! K \<le> (sum_list (take (Suc K) s) - 1) / real (Suc K)"
      using Klt by (simp add: support_member not_less)
    then have "s ! K * real (Suc K) \<le> sum_list (take K s) + s ! K - 1"
      using Klt by (simp add: take_Suc_conv_app_nth pos_le_divide_eq)
    then have "s ! K * real K \<le> sum_list (take K s) - 1"
      by (simp add: algebra_simps)
    then have "s ! K \<le> t" using K1 by (simp add: t_def pos_le_divide_eq)
    moreover have "s ! (K + i) \<le> s ! K" using desc_nth[OF desc, of K "K + i"] i by simp
    ultimately show ?thesis using i by simp
  qed
  have "sum_list (map (\<lambda>x. max (x - t) 0) s)
      = sum_list (map (\<lambda>x. max (x - t) 0) (take K s))
        + sum_list (map (\<lambda>x. max (x - t) 0) (drop K s))"
    by (metis append_take_drop_id map_append sum_list_append)
  also have "\<dots> = sum_list (take K s) - real (length (take K s)) * t + 0"
    using sum_list_shift[of "take K s" t] sum_list_clip[of "drop K s" t] upper lower by simp
  also have "\<dots> = sum_list (take K s) - real K * t" using Kn by simp
  also have "\<dots> = 1" using K1 by (simp add: t_def)
  finally show ?thesis .
qed

lemma sparsemax_row_sum:
  assumes "z \<noteq> []"
  shows "sum_list (sparsemax_row z) = 1"
proof -
  let ?s = "rev (sort z)"
  have "sum_list (sparsemax_row z) = sum_list (map (\<lambda>x. max (x - threshold z) 0) ?s)"
    by (simp add: sparsemax_row_def sum_list_map_sorted_desc)
  also have "\<dots> = 1"
  proof -
    have "sort z \<noteq> []" using assms by (metis length_0_conv length_sort)
    then show ?thesis
      unfolding threshold_def Let_def by (intro simplex_sorted) simp_all
  qed
  finally show ?thesis .
qed

lemma sparsemax_row_nonneg: "x \<in> set (sparsemax_row z) \<Longrightarrow> 0 \<le> x"
  by (auto simp: sparsemax_row_def)

lemma sparsemax_row_le_1:
  assumes "x \<in> set (sparsemax_row z)"
  shows "x \<le> 1"
proof -
  have ne: "z \<noteq> []" using assms by (auto simp: sparsemax_row_def)
  have "x \<le> sum_list (sparsemax_row z)"
    using assms sparsemax_row_nonneg by (intro member_le_sum_list) auto
  then show ?thesis using sparsemax_row_sum[OF ne] by simp
qed

section \<open>Running the small network\<close>

lemmas tensor_eval =
  bop_def bdim_def stretch_def nrows_def tmap_def slice_to_def slice_from_def
  tf_zeros_def tf_ones_def reduce_sum_keepdims_def reduce_sum_axis1_def reduce_mean_def
  relu_def sigmoid_def glu_def sparsemax_def

lemma support_2_0: "support_sizes [2, 0] = [1]"
  by (simp add: support_sizes_def upt_conv_Cons del: upt_Suc)

lemma support_1_0: "support_sizes [1, 0] = [1]"
  by (simp add: support_sizes_def upt_conv_Cons del: upt_Suc)

lemma sparsemax_row_2_0: "sparsemax_row [2, 0] = [1, 0]"
  by (simp add: sparsemax_row_def threshold_def support_2_0 Let_def)

lemma sparsemax_row_1_0: "sparsemax_row [1, 0] = [1, 0]"
  by (simp add: sparsemax_row_def threshold_def support_1_0 Let_def)

lemma call_const_block:
  "TransformBlock_call (const_block row) x training = Tensor (length row) (map (\<lambda>_. row) (rows x))"
  by (simp add: TransformBlock_call_def const_block_def)

lemma example_chain:
  "feature_transform (example_net n 2 od) training (Tensor w [r1, r2])
     = Some (Tensor 2 [[0, 0], [0, 0]])"
  by (simp add: feature_transform_def example_net_def call_const_block tensor_eval
       numeral_eq_Suc)

lemma steps_append:
  "steps self training features (xs @ ys) s =
     (case steps self training features xs s of
        None \<Rightarrow> None
      | Some s' \<Rightarrow> steps self training features ys s')"
  by (induction xs arbitrary: s) (auto split: option.splits)

lemma state_after_0:
  "state_after self inputs training 0 =
     Some (initial_state self (normalized_features self inputs training))"
  by (simp add: state_after_def)

lemma state_after_Suc:
  "state_after self inputs training (Suc k) =
     (case state_after self inputs training k of
        None \<Rightarrow> None
      | Some s \<Rightarrow> decision_step self training (normalized_features self inputs training) k s)"
  by (simp add: state_after_def steps_append Let_def split: option.splits)

lemma example_features:
  "normalized_features (example_net n fd od) x training = x"
  by (simp add: normalized_features_def example_net_def)

lemma example_fields:
  "num_features (example_net n fd od) = 2"
  "feature_dim (example_net n fd od) = fd"
  "output_dim (example_net n fd od) = od"
  "num_decision_steps (example_net n fd od) = n"
  "relaxation_factor (example_net n fd od) = 3 / 2"
  "epsilon (example_net n fd od) = 1 / 100000"
  "transform_coef (example_net n fd od) = const_block [2, 0]"
  by (simp_all add: example_net_def)

lemma example_attend_1:
  "attend (example_net 3 fd od) training (Tensor 2 [[1, 1], [3, - 1]]) (Tensor w [q1, q2])
     \<lparr>output_aggregated = oa, masked_features = mf, mask_values = mv,
      aggregated_mask_values = am,
      complemantary_aggregated_mask_values = Tensor 2 [[1, 1], [1, 1]],
      total_entropy = e\<rparr>
   = Some \<lparr>output_aggregated = oa, masked_features = Tensor 2 [[1, 0], [3, 0]],
      mask_values = Tensor 2 [[1, 0], [1, 0]],
      aggregated_mask_values = am,
      complemantary_aggregated_mask_values = Tensor 2 [[1 / 2, 3 / 2], [1 / 2, 3 / 2]],
      total_entropy = e - ln (100001 / 100000) / 2\<rparr>"
  by (simp add: attend_def entropy_term_def example_fields call_const_block tensor_eval
      sparsemax_row_2_0)

lemma replicate_small:
  "replicate 2 x = [x, x]" "replicate 3 x = [x, x, x]" "replicate 4 x = [x, x, x, x]"
  by (simp_all add: numeral_eq_Suc)

lemmas example_eval = replicate_small
  decision_step_def after_transform_def aggregate_def attend_def entropy_term_def
  example_fields example_features call_const_block tensor_eval initial_state_def
  sparsemax_row_2_0 sparsemax_row_1_0 example_input_def Let_def

lemma example_after_1:
  "state_after (example_net 3 2 1) example_input None 1
   = Some \<lparr>output_aggregated = Tensor 1 [[0], [0]],
      masked_features = Tensor 2 [[1, 0], [3, 0]],
      mask_values = Tensor 2 [[1, 0], [1, 0]],
      aggregated_mask_values = Tensor 2 [[0, 0], [0, 0]],
      complemantary_aggregated_mask_values = Tensor 2 [[1 / 2, 3 / 2], [1 / 2, 3 / 2]],
      total_entropy = - (ln (100001 / 100000) / 2)\<rparr>"
  unfolding One_nat_def state_after_Suc state_after_0
  by (simp add: example_eval example_chain)

section \<open>The generated masks\<close>

lemma attend_mask:
  "attend self training features ffc s = Some s' \<Longrightarrow> \<exists>m. mask_values s' = sparsemax m"
  by (auto simp: attend_def Let_def split: Option.bind_splits)

lemma decision_step_mask:
  assumes "decision_step self training features ni s = Some s'"
    and "int ni < num_decision_steps self - 1"
  shows "\<exists>m. mask_values s' = sparsemax m"
  using assms
  by (auto simp: decision_step_def after_transform_def Let_def
      split: Option.bind_splits if_splits dest: attend_mask)

lemma sparsemax_rows_simplex:
  assumes "r \<in> set (rows (sparsemax m))" "r \<noteq> []"
  shows "(\<forall>x \<in> set r. 0 \<le> x) \<and> sum_list r = 1"
proof -
  from assms(1) obtain z where z: "r = sparsemax_row z"
    by (auto simp: sparsemax_def)
  with assms(2) have "z \<noteq> []" by (auto simp: sparsemax_row_def)
  then show ?thesis using z sparsemax_row_sum sparsemax_row_nonneg by auto
qed

text \<open>
  Claim C1.  At every decision step \<open>ni\<close> with \<open>ni < num_decision_steps - 1\<close> the loop
  generates a mask, which is the sparsemax of the budget-scaled scores.  Every row of
  that mask is entrywise non-negative and its entries sum to 1.  (A row is empty only
  when the mask has no columns, that is for a network without features.)
\<close>

theorem mask_rows_on_simplex:
  assumes "state_after self inputs training (Suc ni) = Some s"
    and "int ni < num_decision_steps self - 1"
    and "r \<in> set (rows (mask_values s))"
    and "r \<noteq> []"
  shows "(\<forall>x \<in> set r. 0 \<le> x) \<and> sum_list r = 1"
proof -
  from assms(1) obtain s0 where
    "decision_step self training (normalized_features self inputs training) ni s0 = Some s"
    by (auto simp: state_after_Suc split: option.splits)
  then obtain m where "mask_values s = sparsemax m"
    using decision_step_mask assms(2) by blast
  then show ?thesis using sparsemax_rows_simplex assms(3,4) by metis
qed

text \<open>The small network at step 0: both mask rows are \<open>[1, 0]\<close>.\<close>

theorem mask_rows_on_simplex_witness:
  "state_after (example_net 3 2 1) example_input None (Suc 0) \<noteq> None
   \<and> int 0 < num_decision_steps (example_net 3 2 1) - 1
   \<and> mask_values (the (state_after (example_net 3 2 1) example_input None (Suc 0)))
       = Tensor 2 [[1, 0], [1, 0]]
   \<and> 0 \<le> (1 :: real) \<and> 0 \<le> (0 :: real) \<and> sum_list [1, 0 :: real] = 1"
  using mask_rows_on_simplex[of "example_net 3 2 1" example_input None 0 _ "[1, 0]"]
    example_after_1
  by (simp add: example_fields)

section \<open>Shapes and entries of the tensor operations\<close>

lemma stretch_same: "length xs = n \<Longrightarrow> stretch n xs = xs"
  by (simp add: stretch_def)

lemma set_stretch: "set (stretch n xs) \<subseteq> set xs"
  by (auto simp: stretch_def)

lemma length_stretch_bdim:
  "bdim (length xs) m = Some n \<Longrightarrow> length (stretch n xs) = n"
  by (cases xs) (auto simp: stretch_def bdim_def length_concat sum_list_replicate
      split: if_splits)

lemma length_stretch_bdim':
  "bdim m (length xs) = Some n \<Longrightarrow> length (stretch n xs) = n"
  by (cases xs) (auto simp: stretch_def bdim_def length_concat sum_list_replicate
      split: if_splits)

lemma bdim_same: "bdim n n = Some n"
  by (simp add: bdim_def)

lemma bop_Some_iff:
  "bop f x y = Some z \<longleftrightarrow>
     (\<exists>b n. bdim (nrows x) (nrows y) = Some b \<and> bdim (ncols x) (ncols y) = Some n \<and>
        z = Tensor n (map2 (\<lambda>r q. map2 f (stretch n r) (stretch n q))
                 (stretch b (rows x)) (stretch b (rows y))))"
  by (auto simp: bop_def split: option.splits)

lemma bop_None_cols: "bdim (ncols x) (ncols y) = None \<Longrightarrow> bop f x y = None"
  by (simp add: bop_def split: option.splits)

lemma bop_ncols: "bop f x y = Some z \<Longrightarrow> bdim (ncols x) (ncols y) = Some (ncols z)"
  by (auto simp: bop_Some_iff)

lemma bop_nrows: "bop f x y = Some z \<Longrightarrow> bdim (nrows x) (nrows y) = Some (nrows z)"
  by (auto simp: bop_Some_iff nrows_def length_stretch_bdim length_stretch_bdim')

lemma bop_wf:
  assumes "bop f x y = Some z" "well_shaped x" "well_shaped y"
  shows "well_shaped z"
proof -
  from assms(1) obtain b n where
    n: "bdim (ncols x) (ncols y) = Some n" and
    z: "z = Tensor n (map2 (\<lambda>r q. map2 f (stretch n r) (stretch n q))
                 (stretch b (rows x)) (stretch b (rows y)))"
    by (auto simp: bop_Some_iff)
  have "length row = n" if "row \<in> set (rows z)" for row
  proof -
    from that obtain r q where rq: "(r, q) \<in> set (zip (stretch b (rows x)) (stretch b (rows y)))"
      and row: "row = map2 f (stretch n r) (stretch n q)"
      by (auto simp: z)
    have "r \<in> set (rows x)" "q \<in> set (rows y)"
      using rq set_stretch[of b "rows x"] set_stretch[of b "rows y"]
      by (auto dest: set_zip_leftD set_zip_rightD)
    then have "length r = ncols x" "length q = ncols y"
      using assms(2,3) by (auto simp: well_shaped_def list_all_iff)
    then show ?thesis
      using n length_stretch_bdim[of r "ncols y" n] length_stretch_bdim'[of "ncols x" q n]
      by (simp add: row)
  qed
  then show ?thesis by (simp add: well_shaped_def list_all_iff z)
qed

lemma bop_same:
  assumes "well_shaped x" "well_shaped y" "nrows x = nrows y" "ncols x = ncols y"
  shows "bop f x y = Some (Tensor (ncols x) (map2 (map2 f) (rows x) (rows y)))"
proof -
  have "map2 (\<lambda>r q. map2 f (stretch (ncols x) r) (stretch (ncols x) q)) (rows x) (rows y)
      = map2 (map2 f) (rows x) (rows y)"
  proof (rule map_cong[OF refl])
    fix p assume "p \<in> set (zip (rows x) (rows y))"
    then have "fst p \<in> set (rows x)" "snd p \<in> set (rows y)"
      by (auto simp: set_zip)
    then have "length (fst p) = ncols x" "length (snd p) = ncols x"
      using assms by (auto simp: well_shaped_def list_all_iff)
    then show "(case p of (r, q) \<Rightarrow> map2 f (stretch (ncols x) r) (stretch (ncols x) q))
        = (case p of (r, q) \<Rightarrow> map2 f r q)"
      by (cases p) (simp add: stretch_same)
  qed
  then show ?thesis
    using assms(3,4) by (simp add: bop_def bdim_same stretch_same nrows_def)
qed

lemma entries_stretch: "r \<in> set (stretch b rs) \<Longrightarrow> r \<in> set rs"
  using set_stretch[of b rs] by auto

lemma bop_entries:
  assumes "bop f x y = Some z" "v \<in> entries z"
  shows "\<exists>a \<in> entries x. \<exists>b \<in> entries y. v = f a b"
proof -
  from assms(1) obtain b n where
    z: "z = Tensor n (map2 (\<lambda>r q. map2 f (stretch n r) (stretch n q))
                 (stretch b (rows x)) (stretch b (rows y)))"
    by (auto simp: bop_Some_iff)
  from assms(2) obtain r q where rq: "(r, q) \<in> set (zip (stretch b (rows x)) (stretch b (rows y)))"
    and v: "v \<in> set (map2 f (stretch n r) (stretch n q))"
    by (auto simp: z entries_def)
  from v obtain a c where ac: "(a, c) \<in> set (zip (stretch n r) (stretch n q))" and vf: "v = f a c"
    by auto
  have "r \<in> set (rows x)" "q \<in> set (rows y)"
    using rq by (auto dest: set_zip_leftD set_zip_rightD entries_stretch)
  moreover have "a \<in> set r" "c \<in> set q"
    using ac by (auto dest: set_zip_leftD set_zip_rightD entries_stretch)
  ultimately show ?thesis using vf by (auto simp: entries_def)
qed

lemma well_shaped_tmap: "well_shaped (tmap f t) = well_shaped t"
  by (simp add: well_shaped_def tmap_def list_all_iff)

lemma ncols_tmap: "ncols (tmap f t) = ncols t"
  by (simp add: tmap_def)

lemma nrows_tmap: "nrows (tmap f t) = nrows t"
  by (simp add: tmap_def nrows_def)

lemma entries_tmap: "entries (tmap f t) = f ` entries t"
  by (auto simp: entries_def tmap_def)

lemma well_shaped_sparsemax: "well_shaped (sparsemax t) = well_shaped t"
  by (simp add: well_shaped_def sparsemax_def sparsemax_row_def list_all_iff)

lemma ncols_sparsemax: "ncols (sparsemax t) = ncols t"
  by (simp add: sparsemax_def)

lemma nrows_sparsemax: "nrows (sparsemax t) = nrows t"
  by (simp add: sparsemax_def nrows_def)

lemma well_shaped_slice_to: "well_shaped t \<Longrightarrow> well_shaped (slice_to k t)"
  by (auto simp: well_shaped_def slice_to_def list_all_iff)

lemma well_shaped_slice_from: "well_shaped t \<Longrightarrow> well_shaped (slice_from k t)"
  by (auto simp: well_shaped_def slice_from_def list_all_iff)

lemma nrows_slice: "nrows (slice_to k t) = nrows t" "nrows (slice_from k t) = nrows t"
  by (simp_all add: nrows_def slice_to_def slice_from_def)

lemma ncols_slice: "ncols (slice_to k t) = min k (ncols t)" "ncols (slice_from k t) = ncols t - k"
  by (simp_all add: slice_to_def slice_from_def)

lemma well_shaped_tf_zeros: "well_shaped (tf_zeros b n)" and well_shaped_tf_ones: "well_shaped (tf_ones b n)"
  by (simp_all add: well_shaped_def tf_zeros_def tf_ones_def list_all_iff)

lemma shape_tf_zeros: "nrows (tf_zeros b n) = b" "ncols (tf_zeros b n) = n"
  by (simp_all add: nrows_def tf_zeros_def)

lemma shape_tf_ones: "nrows (tf_ones b n) = b" "ncols (tf_ones b n) = n"
  by (simp_all add: nrows_def tf_ones_def)

section \<open>The transform chain under the shape contract\<close>

lemma block_okD:
  assumes "block_ok blk units"
  shows "well_shaped (TransformBlock_call blk x training)"
    and "nrows (TransformBlock_call blk x training) = nrows x"
    and "ncols (TransformBlock_call blk x training) = units"
  using assms by (simp_all add: block_ok_def)

lemma glu_ok:
  assumes "well_shaped t" "ncols t = 2 * n"
  shows "\<exists>g. glu t n = Some g \<and> well_shaped g \<and> nrows g = nrows t \<and> ncols g = n"
proof -
  let ?a = "slice_to n t" and ?b = "tmap sigmoid (slice_from n t)"
  have a: "well_shaped ?a" "nrows ?a = nrows t" "ncols ?a = n"
    using assms by (simp_all add: well_shaped_slice_to nrows_slice ncols_slice)
  have b: "well_shaped ?b" "nrows ?b = nrows t" "ncols ?b = n"
    using assms by (simp_all add: well_shaped_tmap well_shaped_slice_from nrows_tmap
        ncols_tmap nrows_slice ncols_slice)
  have "glu t n = Some (Tensor n (map2 (map2 (*)) (rows ?a) (rows ?b)))"
    unfolding glu_def using bop_same[of ?a ?b "(*)"] a b by simp
  moreover have "bop (*) ?a ?b = glu t n" by (simp add: glu_def)
  ultimately show ?thesis
    using bop_wf[of "(*)" ?a ?b] bop_nrows[of "(*)" ?a ?b] a b
    by (auto simp: bdim_same)
qed

lemma residual_ok:
  assumes "well_shaped g" "well_shaped t" "nrows g = nrows t" "ncols g = ncols t"
  shows "\<exists>s. bop (+) g t = Some s \<and> well_shaped s \<and> nrows s = nrows t \<and> ncols s = ncols t"
  using bop_same[OF assms(1,2,3,4), of "(+)"] bop_wf[of "(+)" g t] bop_nrows[of "(+)" g t]
    assms
  by (auto simp: bdim_same)

lemma feature_transform_ok:
  assumes "chain_ok self"
  shows "\<exists>t. feature_transform self training x = Some t \<and> well_shaped t
           \<and> nrows t = nrows x \<and> ncols t = feature_dim self"
proof -
  let ?fd = "feature_dim self"
  have ok: "block_ok (transform_f1 self) (2 * ?fd)" "block_ok (transform_f2 self) (2 * ?fd)"
    "block_ok (transform_f3 self) (2 * ?fd)" "block_ok (transform_f4 self) (2 * ?fd)"
    using assms by (simp_all add: chain_ok_def)
  define b1 where "b1 = TransformBlock_call (transform_f1 self) x training"
  obtain t1 where t1: "glu b1 ?fd = Some t1" "well_shaped t1" "nrows t1 = nrows x" "ncols t1 = ?fd"
    using glu_ok[of b1 ?fd] block_okD[OF ok(1), of x training] by (auto simp: b1_def)
  define b2 where "b2 = TransformBlock_call (transform_f2 self) t1 training"
  obtain g2 where g2: "glu b2 ?fd = Some g2" "well_shaped g2" "nrows g2 = nrows x" "ncols g2 = ?fd"
    using glu_ok[of b2 ?fd] block_okD[OF ok(2), of t1 training] t1 by (auto simp: b2_def)
  obtain s2 where s2: "bop (+) g2 t1 = Some s2" "well_shaped s2" "nrows s2 = nrows x" "ncols s2 = ?fd"
    using residual_ok[of g2 t1] g2 t1 by auto
  define t2 where "t2 = tmap (\<lambda>v. v * sqrt 0.5) s2"
  have t2: "well_shaped t2" "nrows t2 = nrows x" "ncols t2 = ?fd"
    using s2 by (simp_all add: t2_def well_shaped_tmap nrows_tmap ncols_tmap)
  define b3 where "b3 = TransformBlock_call (transform_f3 self) t2 training"
  obtain g3 where g3: "glu b3 ?fd = Some g3" "well_shaped g3" "nrows g3 = nrows x" "ncols g3 = ?fd"
    using glu_ok[of b3 ?fd] block_okD[OF ok(3), of t2 training] t2 by (auto simp: b3_def)
  obtain s3 where s3: "bop (+) g3 t2 = Some s3" "well_shaped s3" "nrows s3 = nrows x" "ncols s3 = ?fd"
    using residual_ok[of g3 t2] g3 t2 by auto
  define t3 where "t3 = tmap (\<lambda>v. v * sqrt 0.5) s3"
  have t3: "well_shaped t3" "nrows t3 = nrows x" "ncols t3 = ?fd"
    using s3 by (simp_all add: t3_def well_shaped_tmap nrows_tmap ncols_tmap)
  define b4 where "b4 = TransformBlock_call (transform_f4 self) t3 training"
  obtain g4 where g4: "glu b4 ?fd = Some g4" "well_shaped g4" "nrows g4 = nrows x" "ncols g4 = ?fd"
    using glu_ok[of b4 ?fd] block_okD[OF ok(4), of t3 training] t3 by (auto simp: b4_def)
  obtain s4 where s4: "bop (+) g4 t3 = Some s4" "well_shaped s4" "nrows s4 = nrows x" "ncols s4 = ?fd"
    using residual_ok[of g4 t3] g4 t3 by auto
  have "feature_transform self training x = Some (tmap (\<lambda>v. v * sqrt 0.5) s4)"
    unfolding feature_transform_def Let_def
    using t1(1) g2(1) s2(1) g3(1) s3(1) g4(1) s4(1)
    by (simp add: b1_def b2_def b3_def b4_def t2_def t3_def)
  then show ?thesis
    using s4 by (simp add: well_shaped_tmap nrows_tmap ncols_tmap)
qed

section \<open>A single decision step\<close>

lemma block_ok_const: "block_ok (const_block row) (length row)"
  by (simp add: block_ok_def call_const_block well_shaped_def nrows_def list_all_iff)

lemma chain_ok_example: "chain_ok (example_net n fd od)"
  using block_ok_const[of "replicate (2 * fd) 0"]
  by (simp add: chain_ok_def example_net_def)

lemma coef_ok_example: "coef_ok (example_net n fd od)"
  using block_ok_const[of "[2, 0]"]
  by (simp add: coef_ok_def example_net_def numeral_2_eq_2)

lemma state_after_None_mono:
  assumes "state_after self inputs training k = None" "k \<le> k'"
  shows "state_after self inputs training k' = None"
proof -
  have "[0..<k'] = [0..<k] @ [k..<k']"
    using assms(2) by (metis le_add_diff_inverse upt_add_eq_append zero_le)
  then show ?thesis
    using assms(1) by (simp add: state_after_def steps_append Let_def)
qed

lemma attend_output:
  "attend self training features ffc s = Some s' \<Longrightarrow> output_aggregated s' = output_aggregated s"
  by (auto simp: attend_def Let_def split: Option.bind_splits)

lemma first_step_output:
  "decision_step self training features 0 s = Some s' \<Longrightarrow>
   output_aggregated s' = output_aggregated s"
  by (auto simp: decision_step_def after_transform_def Let_def
      split: Option.bind_splits if_splits dest: attend_output)

text \<open>
  Claim C2.  With \<open>num_decision_steps = 1\<close> the forward pass returns the all-zero tensor
  of shape \<open>[batch, output_dim]\<close> and the entropy 0, for every input and every
  \<open>output_dim\<close>, when the four blocks of the transform chain deliver the widths they
  are built with.
\<close>

theorem single_step_forward:
  assumes "chain_ok self" and "num_decision_steps self = 1"
  shows "TabNet_call self inputs training =
    Some (tf_zeros (nrows (normalized_features self inputs training)) (output_dim self), 0)"
proof -
  let ?f = "normalized_features self inputs training"
  obtain t4 where "feature_transform self training ?f = Some t4"
    using feature_transform_ok[OF assms(1)] by blast
  then have "decision_step self training ?f 0 (initial_state self ?f)
      = Some (initial_state self ?f)"
    using assms(2) by (simp add: decision_step_def after_transform_def initial_state_def Let_def)
  then have "state_after self inputs training (Suc 0) = Some (initial_state self ?f)"
    by (simp add: state_after_Suc state_after_0)
  then show ?thesis
    using assms(2) by (simp add: TabNet_call_def initial_state_def Let_def)
qed

theorem single_step_forward_witness:
  "num_decision_steps (example_net 1 2 1) = 1
   \<and> TabNet_call (example_net 1 2 1) example_input None = Some (Tensor 1 [[0], [0]], 0)"
  using single_step_forward[OF chain_ok_example, of 1 2 1 example_input None]
  by (simp add: example_fields example_features example_input_def tf_zeros_def nrows_def
      replicate_small)

section \<open>An output width beyond the chain width\<close>

lemma example_chain_1:
  "feature_transform (example_net n (Suc 0) od) training (Tensor w [r1, r2])
     = Some (Tensor 1 [[0], [0]])"
  by (simp add: feature_transform_def example_net_def call_const_block tensor_eval
       numeral_eq_Suc)

lemma example_wide_after_1:
  "state_after (example_net 2 (Suc 0) 3) example_input None (Suc 0)
   = Some \<lparr>output_aggregated = Tensor 3 [[0, 0, 0], [0, 0, 0]],
      masked_features = Tensor 2 [[1, 0], [3, 0]],
      mask_values = Tensor 2 [[1, 0], [1, 0]],
      aggregated_mask_values = Tensor 2 [[0, 0], [0, 0]],
      complemantary_aggregated_mask_values = Tensor 2 [[1 / 2, 3 / 2], [1 / 2, 3 / 2]],
      total_entropy = - ln (100001 / 100000)\<rparr>"
  unfolding state_after_Suc state_after_0
  by (simp add: example_eval example_chain_1)

lemma example_wide_after_2:
  "state_after (example_net 2 (Suc 0) 3) example_input None (Suc (Suc 0))
   = Some \<lparr>output_aggregated = Tensor 3 [[0, 0, 0], [0, 0, 0]],
      masked_features = Tensor 2 [[1, 0], [3, 0]],
      mask_values = Tensor 2 [[1, 0], [1, 0]],
      aggregated_mask_values = Tensor 2 [[0, 0], [0, 0]],
      complemantary_aggregated_mask_values = Tensor 2 [[1 / 2, 3 / 2], [1 / 2, 3 / 2]],
      total_entropy = - ln (100001 / 100000)\<rparr>"
  unfolding state_after_Suc[of _ _ _ "Suc 0"] example_wide_after_1
  by (simp add: example_eval example_chain_1)

text \<open>
  Claim C9, as stated, fails.  The small network with \<open>feature_dim = 1\<close> and
  \<open>output_dim = 3\<close>, so that \<open>output_dim > 2 * feature_dim\<close>, and two decision steps
  returns normally: the slice bounds are clamped, and the decision slice of width 1 is
  broadcast when it is added to the aggregated output.
\<close>

theorem oversized_output_dim_returns:
  "2 * feature_dim (example_net 2 1 3) < output_dim (example_net 2 1 3)
   \<and> TabNet_call (example_net 2 1 3) example_input None
       = Some (Tensor 3 [[0, 0, 0], [0, 0, 0]], - ln (100001 / 100000))"
  by (simp add: TabNet_call_def example_fields example_wide_after_2 numeral_2_eq_2)

lemma aggregate_shape_error:
  assumes "ncols (output_aggregated s) = od" "ncols t4 = fd" "fd < od" "2 \<le> fd"
    and "output_dim self = od"
  shows "aggregate self t4 s = None"
proof -
  have "ncols (tmap relu (slice_to od t4)) = fd"
    using assms by (simp add: ncols_tmap ncols_slice)
  then have "bdim (ncols (output_aggregated s)) (ncols (tmap relu (slice_to od t4))) = None"
    using assms by (simp add: bdim_def)
  then have "bop (+) (output_aggregated s) (tmap relu (slice_to od t4)) = None"
    by (rule bop_None_cols)
  then show ?thesis
    using assms(5) by (simp add: aggregate_def Let_def)
qed

text \<open>
  Claim C9, amended.  When the blocks of the transform chain deliver the widths they are
  built with, \<open>num_decision_steps\<close> is at least 2, \<open>feature_dim\<close> is at least 2 and
  \<open>output_dim > 2 * feature_dim\<close>, the forward pass fails.  The failure is not raised by
  the split, whose bounds are clamped, but at the latest at step 1 by the addition of
  the decision slice, of width \<open>feature_dim\<close>, to the aggregated output, of width
  \<open>output_dim\<close>.
\<close>

theorem oversized_output_dim_fails:
  assumes "chain_ok self"
    and "2 \<le> num_decision_steps self"
    and "2 \<le> feature_dim self"
    and "2 * feature_dim self < output_dim self"
  shows "TabNet_call self inputs training = None"
proof -
  let ?f = "normalized_features self inputs training"
  have two: "state_after self inputs training 2 = None"
  proof (cases "state_after self inputs training (Suc 0)")
    case None
    then show ?thesis using state_after_None_mono[of self inputs training "Suc 0" 2] by simp
  next
    case (Some s1)
    then have "decision_step self training ?f 0 (initial_state self ?f) = Some s1"
      by (simp add: state_after_Suc state_after_0)
    then have "output_aggregated s1 = output_aggregated (initial_state self ?f)"
      by (rule first_step_output)
    then have oa: "ncols (output_aggregated s1) = output_dim self"
      by (simp add: initial_state_def Let_def shape_tf_zeros)
    obtain t4 where t4: "feature_transform self training (masked_features s1) = Some t4"
      "ncols t4 = feature_dim self"
      using feature_transform_ok[OF assms(1)] by blast
    have "aggregate self t4 s1 = None"
      using aggregate_shape_error[OF oa t4(2) _ assms(3) refl] assms(4) by simp
    then have "decision_step self training ?f (Suc 0) s1 = None"
      using t4(1) by (simp add: decision_step_def after_transform_def)
    then have "state_after self inputs training (Suc (Suc 0)) = None"
      using Some by (simp add: state_after_Suc[of _ _ _ "Suc 0"])
    then show ?thesis by (simp add: numeral_2_eq_2)
  qed
  have "2 \<le> nat (num_decision_steps self)" using assms(2) by simp
  then have "state_after self inputs training (nat (num_decision_steps self)) = None"
    using state_after_None_mono[OF two] by blast
  then show ?thesis by (simp add: TabNet_call_def)
qed

theorem oversized_output_dim_fails_witness:
  "2 \<le> num_decision_steps (example_net 2 2 5) \<and> 2 \<le> feature_dim (example_net 2 2 5)
   \<and> 2 * feature_dim (example_net 2 2 5) < output_dim (example_net 2 2 5)
   \<and> TabNet_call (example_net 2 2 5) example_input None = None"
  using oversized_output_dim_fails[OF chain_ok_example, of 2 2 5 example_input None]
  by (simp add: example_fields)

section \<open>The small network with three decision steps\<close>

lemma example_after_Suc_0:
  "state_after (example_net 3 2 (Suc 0)) example_input None (Suc 0)
   = Some \<lparr>output_aggregated = Tensor 1 [[0], [0]],
      masked_features = Tensor 2 [[1, 0], [3, 0]],
      mask_values = Tensor 2 [[1, 0], [1, 0]],
      aggregated_mask_values = Tensor 2 [[0, 0], [0, 0]],
      complemantary_aggregated_mask_values = Tensor 2 [[1 / 2, 3 / 2], [1 / 2, 3 / 2]],
      total_entropy = - (ln (100001 / 100000) / 2)\<rparr>"
  using example_after_1 by simp

lemma example_after_2:
  "state_after (example_net 3 2 (Suc 0)) example_input None (Suc (Suc 0))
   = Some \<lparr>output_aggregated = Tensor 1 [[0], [0]],
      masked_features = Tensor 2 [[1, 0], [3, 0]],
      mask_values = Tensor 2 [[1, 0], [1, 0]],
      aggregated_mask_values = Tensor 2 [[0, 0], [0, 0]],
      complemantary_aggregated_mask_values = Tensor 2 [[1 / 4, 9 / 4], [1 / 4, 9 / 4]],
      total_entropy = - ln (100001 / 100000)\<rparr>"
  unfolding state_after_Suc[of _ _ _ "Suc 0"] example_after_Suc_0
  by (simp add: example_eval example_chain)

lemma example_after_3:
  "state_after (example_net 3 2 (Suc 0)) example_input None (Suc (Suc (Suc 0)))
   = Some \<lparr>output_aggregated = Tensor 1 [[0], [0]],
      masked_features = Tensor 2 [[1, 0], [3, 0]],
      mask_values = Tensor 2 [[1, 0], [1, 0]],
      aggregated_mask_values = Tensor 2 [[0, 0], [0, 0]],
      complemantary_aggregated_mask_values = Tensor 2 [[1 / 4, 9 / 4], [1 / 4, 9 / 4]],
      total_entropy = - ln (100001 / 100000)\<rparr>"
  unfolding state_after_Suc[of _ _ _ "Suc (Suc 0)"] example_after_2
  by (simp add: example_eval example_chain)

lemma example_call:
  "TabNet_call (example_net 3 2 (Suc 0)) example_input None
     = Some (Tensor 1 [[0], [0]], - ln (100001 / 100000))"
  by (simp add: TabNet_call_def example_fields example_after_3 numeral_3_eq_3)

section \<open>The complementary budget\<close>

lemma state_after_SucD:
  assumes "state_after self inputs training (Suc k) = Some s'"
  obtains s where "state_after self inputs training k = Some s"
    and "decision_step self training (normalized_features self inputs training) k s = Some s'"
  using assms by (auto simp: state_after_Suc split: option.splits)

lemma aggregate_frame:
  assumes "aggregate self t4 s = Some s'"
  shows "mask_values s' = mask_values s"
    and "complemantary_aggregated_mask_values s' = complemantary_aggregated_mask_values s"
    and "total_entropy s' = total_entropy s"
    and "masked_features s' = masked_features s"
  using assms by (auto simp: aggregate_def Let_def split: Option.bind_splits)

lemma attend_budget:
  assumes "attend self training features ffc s = Some s'"
  shows "\<exists>m. mask_values s' = sparsemax m \<and>
     bop (*) (complemantary_aggregated_mask_values s)
       (tmap (\<lambda>v. relaxation_factor self - v) (mask_values s'))
     = Some (complemantary_aggregated_mask_values s')"
  using assms by (auto simp: attend_def Let_def split: Option.bind_splits)

lemma decision_step_cases:
  assumes "decision_step self training features ni s = Some s'"
  obtains (attended) t4 s1 where "int ni < num_decision_steps self - 1"
      and "feature_transform self training (masked_features s) = Some t4"
      and "(if ni > 0 then aggregate self t4 s else Some s) = Some s1"
      and "attend self training features (slice_from (output_dim self) t4) s1 = Some s'"
    | (last) t4 where "\<not> int ni < num_decision_steps self - 1"
      and "feature_transform self training (masked_features s) = Some t4"
      and "(if ni > 0 then aggregate self t4 s else Some s) = Some s'"
  using assms
  by (auto simp: decision_step_def after_transform_def Let_def
      split: Option.bind_splits if_splits)

lemma entries_sparsemax:
  assumes "v \<in> entries (sparsemax m)"
  shows "0 \<le> v \<and> v \<le> 1"
  using assms sparsemax_row_nonneg sparsemax_row_le_1
  by (auto simp: entries_def sparsemax_def)

lemma entries_tf_ones: "v \<in> entries (tf_ones b n) \<Longrightarrow> v = 1"
  by (auto simp: entries_def tf_ones_def split: if_splits)

lemma budget_step:
  assumes rf: "1 \<le> relaxation_factor self"
    and step: "decision_step self training features ni s = Some s'"
    and old: "\<forall>a \<in> entries (complemantary_aggregated_mask_values s). 0 \<le> a \<and> a \<le> B"
    and x: "x \<in> entries (complemantary_aggregated_mask_values s')"
  shows "0 \<le> x \<and> x \<le> B * relaxation_factor self"
proof -
  let ?rf = "relaxation_factor self"
  have keep: "0 \<le> a \<and> a \<le> B * ?rf"
    if "a \<in> entries (complemantary_aggregated_mask_values s)" for a
  proof -
    have "0 \<le> a" "a \<le> B" using old that by auto
    then have "a * 1 \<le> B * ?rf" using rf by (intro mult_mono) auto
    then show ?thesis using \<open>0 \<le> a\<close> by simp
  qed
  from step show ?thesis
  proof (cases rule: decision_step_cases)
    case (attended t4 s1)
    have s1: "complemantary_aggregated_mask_values s1 = complemantary_aggregated_mask_values s"
      using attended(3) aggregate_frame(2) by (auto split: if_splits)
    obtain m where m: "mask_values s' = sparsemax m"
      and b: "bop (*) (complemantary_aggregated_mask_values s)
         (tmap (\<lambda>v. ?rf - v) (mask_values s')) = Some (complemantary_aggregated_mask_values s')"
      using attend_budget[OF attended(4)] s1 by auto
    obtain a c where a: "a \<in> entries (complemantary_aggregated_mask_values s)"
      and c: "c \<in> entries (tmap (\<lambda>v. ?rf - v) (mask_values s'))" and xac: "x = a * c"
      using bop_entries[OF b x] by blast
    from c obtain v where v: "v \<in> entries (sparsemax m)" and cv: "c = ?rf - v"
      by (auto simp: entries_tmap m)
    have "0 \<le> v" "v \<le> 1" using entries_sparsemax[OF v] by auto
    then have c0: "0 \<le> c" and c1: "c \<le> ?rf" using rf cv by auto
    have "0 \<le> a" "a \<le> B" using old a by auto
    then have "0 \<le> a * c" "a * c \<le> B * ?rf"
      using c0 c1 by (auto intro: mult_mono)
    then show ?thesis by (simp add: xac)
  next
    case (last t4)
    have "complemantary_aggregated_mask_values s' = complemantary_aggregated_mask_values s"
      using last(3) aggregate_frame(2) by (auto split: if_splits)
    then show ?thesis using keep x by simp
  qed
qed

text \<open>
  Claim C3, as stated, fails.  In the small network with \<open>relaxation_factor = 3 / 2\<close>
  the second feature is never selected (its mask value is 0 at steps 0 and 1), so its
  budget is multiplied by \<open>3 / 2\<close> twice: after two steps it is \<open>9 / 4\<close>, which exceeds
  the relaxation factor.
\<close>

theorem budget_exceeds_relaxation_factor:
  "1 \<le> relaxation_factor (example_net 3 2 1)
   \<and> map_option complemantary_aggregated_mask_values
        (state_after (example_net 3 2 1) example_input None 2)
       = Some (Tensor 2 [[1 / 4, 9 / 4], [1 / 4, 9 / 4]])
   \<and> relaxation_factor (example_net 3 2 1) < 9 / 4"
  using example_after_2 by (simp add: example_fields numeral_2_eq_2)

text \<open>
  Claim C3, amended.  For a relaxation factor of at least 1, every entry of the budget is
  non-negative throughout the forward pass, and after \<open>k\<close> decision steps it is at most
  the \<open>k\<close>-th power of the relaxation factor: the budget starts at 1 and every update
  multiplies an entry by \<open>relaxation_factor - mask\<close>, a factor between
  \<open>relaxation_factor - 1\<close> and \<open>relaxation_factor\<close>.
\<close>

theorem budget_bounds:
  assumes "1 \<le> relaxation_factor self"
    and "state_after self inputs training k = Some s"
    and "x \<in> entries (complemantary_aggregated_mask_values s)"
  shows "0 \<le> x \<and> x \<le> relaxation_factor self ^ k"
  using assms(2,3)
proof (induction k arbitrary: s x)
  case 0
  then have "x = 1"
    by (auto simp: state_after_0 initial_state_def Let_def dest: entries_tf_ones)
  then show ?case by simp
next
  case (Suc k)
  from Suc.prems(1) obtain s0 where s0: "state_after self inputs training k = Some s0"
    and step: "decision_step self training (normalized_features self inputs training) k s0
       = Some s"
    by (rule state_after_SucD)
  have ih: "\<forall>a \<in> entries (complemantary_aggregated_mask_values s0).
      0 \<le> a \<and> a \<le> relaxation_factor self ^ k"
    using Suc.IH[OF s0] by blast
  show ?case
    using budget_step[OF assms(1) step ih Suc.prems(2)] by (simp add: mult.commute)
qed

theorem budget_bounds_witness:
  "1 \<le> relaxation_factor (example_net 3 2 1)
   \<and> state_after (example_net 3 2 1) example_input None 2 \<noteq> None
   \<and> 9 / 4 \<in> entries (complemantary_aggregated_mask_values
        (the (state_after (example_net 3 2 1) example_input None 2)))
   \<and> (0 :: real) \<le> 9 / 4 \<and> 9 / 4 \<le> relaxation_factor (example_net 3 2 1) ^ 2"
  using budget_bounds[of "example_net 3 2 1" example_input None 2 _ "9 / 4"]
    example_after_2
  by (simp add: example_fields numeral_2_eq_2 entries_def)

end
